theory Spec2Isabelle
  imports Complex_Main
begin

section \<open>The product catalog of the Product Gallery API\<close>

text \<open>
  A shallow embedding of \<^verbatim>\<open>backend/controllers/productController.js\<close>,
  \<^verbatim>\<open>backend/models/Product.js\<close> and \<^verbatim>\<open>backend/middleware/errorHandler.js\<close>.
  The model and the controllers are read from \<^verbatim>\<open>frontend/app.js\<close>, which holds
  them from line 460 on; the line numbers below are lines of that file.
  Every controller becomes a function from the request and the state before the request to
  the state after it and the response that was sent. The state is the \<open>products\<close>
  collection of the document store together with the set of images held by Cloudinary.
  What the collaborators answer during one request (whether an upload or a removal at
  Cloudinary succeeds, the fresh ObjectId, the clock) is an explicit argument, the
  \<open>world\<close>. The document store itself is taken to be reachable: its only failures
  are the ones Mongoose raises from the data (casts, validators, duplicate keys, a negative
  skip).
\<close>

subsection \<open>JavaScript values\<close>


text \<open>\<^verbatim>\<open>a || b\<close> where \<open>a\<close> is a string or undefined and \<open>b\<close> a string.\<close>

definition or_else :: "string option \<Rightarrow> string \<Rightarrow> string" where
  "or_else a b = (case a of None \<Rightarrow> b | Some str \<Rightarrow> if str \<noteq> [] then str else b)"

text \<open>
  White space is the ASCII part of what ECMAScript strips (TAB, LF, VT, FF, CR, SP);
  strings are byte strings here.
\<close>

definition isWhiteSpace :: "char \<Rightarrow> bool" where
  "isWhiteSpace c = ((of_char c :: nat) \<in> {9, 10, 11, 12, 13, 32})"

text \<open>\<^verbatim>\<open>String.prototype.trim\<close>.\<close>

definition trim :: "string \<Rightarrow> string" where
  "trim str = dropWhile isWhiteSpace (rev (dropWhile isWhiteSpace (rev str)))"

definition digitValue :: "char \<Rightarrow> nat option" where
  "digitValue c =
     (let n = (of_char c :: nat) in
      if 48 \<le> n \<and> n \<le> 57 then Some (n - 48)
      else if 97 \<le> n \<and> n \<le> 122 then Some (n - 87)
      else if 65 \<le> n \<and> n \<le> 90 then Some (n - 55)
      else None)"

definition isRadixDigit :: "nat \<Rightarrow> char \<Rightarrow> bool" where
  "isRadixDigit R c = (case digitValue c of None \<Rightarrow> False | Some d \<Rightarrow> d < R)"




text \<open>
  A JavaScript number as \<^verbatim>\<open>parseFloat\<close> returns it. The function
  \<^verbatim>\<open>parseFloat\<close> itself is an argument \<open>pf\<close> of the controllers that call
  it: which double a decimal text denotes is not fixed here.
\<close>

datatype number = NaN | PosInfinity | NegInfinity | Finite rat

subsection \<open>Numbers as a client writes them\<close>

text \<open>
  The decimal numeral of a natural number, as a query string carries it
  (\<^verbatim>\<open>limit=5\<close>), and the texts that begin with no number at all: the empty text and
  those whose first character is neither white space, a sign nor a decimal digit
  (\<^verbatim>\<open>limit=abc\<close>). They serve to say what a call asked for.
\<close>

definition digitChar :: "nat \<Rightarrow> char" where
  "digitChar d = char_of (48 + d)"

fun decimal :: "nat \<Rightarrow> string" where
  "decimal n = (if n < 10 then [digitChar n] else decimal (n div 10) @ [digitChar (n mod 10)])"


subsection \<open>ObjectIds\<close>

text \<open>
  An ObjectId is its 24 digit lower case hexadecimal text. Mongoose casts a string to an
  ObjectId where a query names \<^verbatim>\<open>_id\<close> or \<^verbatim>\<open>shopId\<close>; a string that
  is not 24 hexadecimal digits raises a CastError.
\<close>

type_synonym objectId = string

definition isHexDigit :: "char \<Rightarrow> bool" where
  "isHexDigit c = isRadixDigit 16 c"

definition toLowerCase :: "char \<Rightarrow> char" where
  "toLowerCase c =
     (let n = (of_char c :: nat) in if 65 \<le> n \<and> n \<le> 90 then char_of (n + 32) else c)"

definition castObjectId :: "string \<Rightarrow> objectId option" where
  "castObjectId str =
     (if length str = 24 \<and> list_all isHexDigit str then Some (map toLowerCase str) else None)"

subsection \<open>The data model: \<^verbatim>\<open>models/Product.js\<close>\<close>

text \<open>
  One document of the collection. \<open>price\<close> is \<open>None\<close> where the document has
  no price. A required string that is missing is held as the empty string until the
  validators run: Mongoose's \<^verbatim>\<open>required\<close> rejects both with the same message,
  so no stored document tells them apart.
\<close>

record product =
  product_id :: objectId
  title :: string
  description :: string
  imageURL :: string
  imagePublicId :: string
  shopId :: objectId
  category :: string
  price :: "number option"
  inStock :: bool
  createdAt :: nat
  updatedAt :: nat

definition categories :: "string list" where
  "categories =
     [''Electronics'', ''Fashion'', ''Home & Garden'', ''Sports'', ''Books'', ''Toys'',
      ''Health & Beauty'', ''Food & Beverages'', ''Automotive'', ''Other'']"

datatype error =
    CastError
  | ValidationError "string list"
  | DuplicateKey string
  | MulterError string
  | OtherError string

text \<open>
  A String path: the value is cast (\<^verbatim>\<open>trim: true\<close> is a setter that runs on the
  cast, in documents and in updates alike), then validated.
\<close>

definition castString :: "bool \<Rightarrow> string option \<Rightarrow> string" where
  "castString trimmed v = (case v of None \<Rightarrow> [] | Some str \<Rightarrow> if trimmed then trim str else str)"

definition validateTitle :: "string \<Rightarrow> string list" where
  "validateTitle v =
     (if v = [] then [''Product title is required'']
      else if 100 < length v then [''Title cannot exceed 100 characters'']
      else [])"

definition validateDescription :: "string \<Rightarrow> string list" where
  "validateDescription v =
     (if v = [] then [''Product description is required'']
      else if 1000 < length v then [''Description cannot exceed 1000 characters'']
      else [])"

definition validateImageURL :: "string \<Rightarrow> string list" where
  "validateImageURL v = (if v = [] then [''Product image is required''] else [])"

definition validateImagePublicId :: "string \<Rightarrow> string list" where
  "validateImagePublicId v = (if v = [] then [''Path `imagePublicId` is required.''] else [])"

definition validateShopId :: "objectId \<Rightarrow> string list" where
  "validateShopId v = (if v = [] then [''Shop ID is required''] else [])"

definition validateCategory :: "string \<Rightarrow> string list" where
  "validateCategory v =
     (if v = [] then [''Product category is required'']
      else if v \<notin> set categories then
        [''Category must be one of: Electronics, Fashion, Home & Garden, Sports, Books, Toys, Health & Beauty, Food & Beverages, Automotive, Other'']
      else [])"

text \<open>
  A Number path: NaN does not cast (the path is reported as invalid), then
  \<^verbatim>\<open>min: 0\<close> is the test \<^verbatim>\<open>v >= 0\<close>.
\<close>

definition validatePrice :: "number option \<Rightarrow> string list" where
  "validatePrice v =
     (case v of
        None \<Rightarrow> []
      | Some NaN \<Rightarrow> [''Cast to Number failed for value NaN at path price'']
      | Some PosInfinity \<Rightarrow> []
      | Some NegInfinity \<Rightarrow> [''Price cannot be negative'']
      | Some (Finite q) \<Rightarrow> if q < 0 then [''Price cannot be negative''] else [])"

definition validate :: "product \<Rightarrow> string list" where
  "validate doc =
     validateTitle (title doc) @ validateDescription (description doc) @
     validateImageURL (imageURL doc) @ validateImagePublicId (imagePublicId doc) @
     validateShopId (shopId doc) @ validateCategory (category doc) @
     validatePrice (price doc)"

subsection \<open>The state and the collaborators\<close>

record state =
  products :: "product list"
  images :: "string set"

text \<open>
  What the outside answers during one request: \<open>uploadAnswer\<close> is what Cloudinary
  resolves an upload with (\<^verbatim>\<open>secure_url\<close>, \<^verbatim>\<open>public_id\<close>), or
  \<open>None\<close> when it rejects; \<open>destroyAnswer\<close> is whether
  \<^verbatim>\<open>uploader.destroy\<close> resolves; \<open>newId\<close> is the ObjectId a new document
  gets; \<open>now\<close> is the clock for the timestamps.
\<close>

record world =
  uploadAnswer :: "(string \<times> string) option"
  destroyAnswer :: bool
  newId :: objectId
  now :: nat

definition uploadToCloudinary ::
  "world \<Rightarrow> string \<Rightarrow> string set \<Rightarrow> error + ((string \<times> string) \<times> string set)" where
  "uploadToCloudinary w f imgs =
     (case uploadAnswer w of
        None \<Rightarrow> Inl (OtherError ''upload failed'')
      | Some (secure_url, public_id) \<Rightarrow> Inr ((secure_url, public_id), insert public_id imgs))"

definition destroy :: "world \<Rightarrow> string \<Rightarrow> string set \<Rightarrow> error + string set" where
  "destroy w public_id imgs =
     (if destroyAnswer w then Inr (imgs - {public_id}) else Inl (OtherError ''destroy failed''))"

subsection \<open>The Mongoose operations the controllers call\<close>

text \<open>The document with the given \<^verbatim>\<open>_id\<close>, if the collection has one.\<close>

definition lookup :: "objectId \<Rightarrow> state \<Rightarrow> product option" where
  "lookup oid s = find (\<lambda>doc. product_id doc = oid) (products s)"

text \<open>\<^verbatim>\<open>Product.findById(id)\<close>: a cast error, or the document or null.\<close>

definition findById :: "string \<Rightarrow> state \<Rightarrow> error + product option" where
  "findById ident s =
     (case castObjectId ident of
        None \<Rightarrow> Inl CastError
      | Some oid \<Rightarrow> Inr (lookup oid s))"

text \<open>
  \<^verbatim>\<open>product.save()\<close> of a new document: the validators run, then the document
  is inserted with its timestamps; \<^verbatim>\<open>_id\<close> is unique in a collection.
\<close>

definition save :: "world \<Rightarrow> product \<Rightarrow> state \<Rightarrow> error + (product \<times> state)" where
  "save w doc s =
     (if validate doc \<noteq> [] then Inl (ValidationError (validate doc))
      else if product_id doc \<in> product_id ` set (products s) then Inl (DuplicateKey ''_id'')
      else let stored = doc\<lparr>createdAt := now w, updatedAt := now w\<rparr>
           in Inr (stored, s\<lparr>products := products s @ [stored]\<rparr>))"

text \<open>The object \<^verbatim>\<open>updateData\<close> of \<^verbatim>\<open>updateProduct\<close>.\<close>

record updateData =
  u_title :: string
  u_description :: string
  u_category :: string
  u_price :: "number option"
  u_inStock :: bool
  u_imageURL :: "string option"
  u_imagePublicId :: "string option"

definition validateUpdate :: "updateData \<Rightarrow> string list" where
  "validateUpdate u =
     validateTitle (castString True (Some (u_title u))) @
     validateDescription (castString True (Some (u_description u))) @
     validateCategory (u_category u) @
     validatePrice (u_price u) @
     (case u_imageURL u of None \<Rightarrow> [] | Some v \<Rightarrow> validateImageURL v) @
     (case u_imagePublicId u of None \<Rightarrow> [] | Some v \<Rightarrow> validateImagePublicId v)"

definition applyUpdate :: "world \<Rightarrow> updateData \<Rightarrow> product \<Rightarrow> product" where
  "applyUpdate w u doc =
     doc\<lparr>title := castString True (Some (u_title u)),
         description := castString True (Some (u_description u)),
         category := u_category u,
         price := u_price u,
         inStock := u_inStock u,
         imageURL := (case u_imageURL u of None \<Rightarrow> imageURL doc | Some v \<Rightarrow> v),
         imagePublicId := (case u_imagePublicId u of None \<Rightarrow> imagePublicId doc | Some v \<Rightarrow> v),
         updatedAt := now w\<rparr>"

text \<open>
  \<^verbatim>\<open>Product.findByIdAndUpdate(id, updateData, {new: true, runValidators: true})\<close>:
  the id and the update are cast (a NaN price raises a CastError, an undefined price is
  dropped from the update, so the stored price stays), the validators of the paths that
  are set run, and the document with that \<^verbatim>\<open>_id\<close> is replaced; the answer is the
  document after the update, or null.
\<close>

definition findByIdAndUpdate ::
  "world \<Rightarrow> string \<Rightarrow> updateData \<Rightarrow> state \<Rightarrow> error + (product option \<times> state)" where
  "findByIdAndUpdate w ident u s =
     (case castObjectId ident of
        None \<Rightarrow> Inl CastError
      | Some oid \<Rightarrow>
          if u_price u = Some NaN then Inl CastError
          else if validateUpdate u \<noteq> [] then Inl (ValidationError (validateUpdate u))
          else
            let s' = s\<lparr>products :=
                        map (\<lambda>doc. if product_id doc = oid then applyUpdate w u doc else doc)
                          (products s)\<rparr>
            in Inr (lookup oid s', s'))"

text \<open>\<^verbatim>\<open>Product.findByIdAndDelete(id)\<close>.\<close>

definition findByIdAndDelete :: "string \<Rightarrow> state \<Rightarrow> error + state" where
  "findByIdAndDelete ident s =
     (case castObjectId ident of
        None \<Rightarrow> Inl CastError
      | Some oid \<Rightarrow> Inr (s\<lparr>products := filter (\<lambda>doc. product_id doc \<noteq> oid) (products s)\<rparr>))"

subsection \<open>Requests and responses\<close>

text \<open>
  \<open>user_id\<close> is \<^verbatim>\<open>req.user._id\<close>, set by the authentication middleware
  before a private route runs; \<open>req_file\<close> is \<^verbatim>\<open>req.file\<close>, the image that
  multer read, if any.
\<close>

record request =
  params_id :: string
  user_id :: objectId
  body_title :: "string option"
  body_description :: "string option"
  body_category :: "string option"
  body_price :: "string option"
  body_inStock :: "string option"
  req_file :: "string option"
  query_page :: "string option"
  query_limit :: "string option"
  query_category :: "string option"
  query_shopId :: "string option"
  query_search :: "string option"

record pagination =
  pg_page :: int
  pg_pages :: int
  pg_total :: int
  pg_limit :: int

text \<open>
  The \<^verbatim>\<open>data\<close> of a response. \<^verbatim>\<open>populate\<close> only decorates the
  owner reference of the documents sent back with the owner's names; the users are not
  part of this state, and a product is sent as it is stored.
\<close>

datatype payload =
    NoData
  | OneProduct (the_product: product)
  | ProductPage (the_products: "product list") (the_pagination: pagination)

record response =
  status :: nat
  success :: bool
  message :: "string option"
  payload :: payload

definition failure :: "nat \<Rightarrow> string \<Rightarrow> response" where
  "failure code msg = \<lparr>status = code, success = False, message = Some msg, payload = NoData\<rparr>"

subsection \<open>\<^verbatim>\<open>controllers/productController.js\<close>\<close>

text \<open>\<^verbatim>\<open>createProduct\<close>, lines 539 to 586.\<close>

definition createProduct ::
  "(string \<Rightarrow> number) \<Rightarrow> world \<Rightarrow> request \<Rightarrow> state \<Rightarrow> state \<times> response" where
  "createProduct pf w req s =
     (case req_file req of
        None \<Rightarrow> (s, failure 400 ''Product image is required'')
      | Some f \<Rightarrow>
          (case uploadToCloudinary w f (images s) of
             Inl e \<Rightarrow> (s, failure 500 ''Server error creating product'')
           | Inr (uploadResult, imgs) \<Rightarrow>
               (let doc = \<lparr>product_id = newId w,
                           title = castString True (body_title req),
                           description = castString True (body_description req),
                           imageURL = fst uploadResult,
                           imagePublicId = snd uploadResult,
                           shopId = user_id req,
                           category = castString False (body_category req),
                           price = (case body_price req of
                                      None \<Rightarrow> None
                                    | Some str \<Rightarrow> if str \<noteq> [] then Some (pf str) else None),
                           inStock = (if body_inStock req = Some ''false'' then False else True),
                           createdAt = 0,
                           updatedAt = 0\<rparr>;
                    s1 = s\<lparr>images := imgs\<rparr>
                in case save w doc s1 of
                     Inl e \<Rightarrow> (s1, failure 500 ''Server error creating product'')
                   | Inr (stored, s2) \<Rightarrow>
                       (s2, \<lparr>status = 201, success = True,
                             message = Some ''Product created successfully'',
                             payload = OneProduct stored\<rparr>))))"









text \<open>\<^verbatim>\<open>getProduct\<close>, lines 647 to 673.\<close>

definition getProduct :: "request \<Rightarrow> state \<Rightarrow> response" where
  "getProduct req s =
     (case findById (params_id req) s of
        Inl e \<Rightarrow> failure 500 ''Server error fetching product''
      | Inr None \<Rightarrow> failure 404 ''Product not found''
      | Inr (Some doc) \<Rightarrow>
          \<lparr>status = 200, success = True, message = None, payload = OneProduct doc\<rparr>)"

text \<open>
  The first five fields of \<^verbatim>\<open>updateData\<close>, from the body and the stored
  document (lines 697 to 704).
\<close>

definition patch :: "(string \<Rightarrow> number) \<Rightarrow> request \<Rightarrow> product \<Rightarrow> updateData" where
  "patch pf req doc =
     \<lparr>u_title = or_else (body_title req) (title doc),
      u_description = or_else (body_description req) (description doc),
      u_category = or_else (body_category req) (category doc),
      u_price = (case body_price req of None \<Rightarrow> price doc | Some str \<Rightarrow> Some (pf str)),
      u_inStock = (case body_inStock req of
                     None \<Rightarrow> inStock doc
                   | Some v \<Rightarrow> (if v = ''false'' then False else True)),
      u_imageURL = None,
      u_imagePublicId = None\<rparr>"

text \<open>
  The block \<^verbatim>\<open>if (req.file) { ... }\<close> (lines 706 to 717): the old image is
  destroyed, then the new one is uploaded. It answers the images afterwards in either case: what was done before a
  rejection stays done.
\<close>

definition replaceImage ::
  "world \<Rightarrow> request \<Rightarrow> product \<Rightarrow> updateData \<Rightarrow> string set \<Rightarrow> string set \<times> (error + updateData)" where
  "replaceImage w req doc u imgs =
     (case req_file req of
        None \<Rightarrow> (imgs, Inr u)
      | Some f \<Rightarrow>
          (case (if imagePublicId doc \<noteq> [] then destroy w (imagePublicId doc) imgs else Inr imgs) of
             Inl e \<Rightarrow> (imgs, Inl e)
           | Inr imgs1 \<Rightarrow>
               (case uploadToCloudinary w f imgs1 of
                  Inl e \<Rightarrow> (imgs1, Inl e)
                | Inr (uploadResult, imgs2) \<Rightarrow>
                    (imgs2, Inr (u\<lparr>u_imageURL := Some (fst uploadResult),
                                   u_imagePublicId := Some (snd uploadResult)\<rparr>)))))"

text \<open>\<^verbatim>\<open>updateProduct\<close>, lines 678 to 740.\<close>

definition updateProduct ::
  "(string \<Rightarrow> number) \<Rightarrow> world \<Rightarrow> request \<Rightarrow> state \<Rightarrow> state \<times> response" where
  "updateProduct pf w req s =
     (case findById (params_id req) s of
        Inl e \<Rightarrow> (s, failure 500 ''Server error updating product'')
      | Inr None \<Rightarrow> (s, failure 404 ''Product not found'')
      | Inr (Some doc) \<Rightarrow>
          if shopId doc \<noteq> user_id req then
            (s, failure 403 ''Access denied. You can only update your own products.'')
          else
            (case replaceImage w req doc (patch pf req doc) (images s) of
               (imgs, Inl e) \<Rightarrow> (s\<lparr>images := imgs\<rparr>, failure 500 ''Server error updating product'')
             | (imgs, Inr u) \<Rightarrow>
                 (case findByIdAndUpdate w (params_id req) u (s\<lparr>images := imgs\<rparr>) of
                    Inl e \<Rightarrow> (s\<lparr>images := imgs\<rparr>, failure 500 ''Server error updating product'')
                  | Inr (updatedProduct, s') \<Rightarrow>
                      (s', \<lparr>status = 200, success = True,
                            message = Some ''Product updated successfully'',
                            payload = (case updatedProduct of
                                         None \<Rightarrow> NoData
                                       | Some d \<Rightarrow> OneProduct d)\<rparr>))))"

text \<open>
  \<^verbatim>\<open>deleteProduct\<close>, lines 745 to 784: the image is destroyed, then the document
  is deleted, all in one \<^verbatim>\<open>try\<close>.
\<close>

definition deleteProduct :: "world \<Rightarrow> request \<Rightarrow> state \<Rightarrow> state \<times> response" where
  "deleteProduct w req s =
     (case findById (params_id req) s of
        Inl e \<Rightarrow> (s, failure 500 ''Server error deleting product'')
      | Inr None \<Rightarrow> (s, failure 404 ''Product not found'')
      | Inr (Some doc) \<Rightarrow>
          if shopId doc \<noteq> user_id req then
            (s, failure 403 ''Access denied. You can only delete your own products.'')
          else
            (case (if imagePublicId doc \<noteq> [] then destroy w (imagePublicId doc) (images s)
                   else Inr (images s)) of
               Inl e \<Rightarrow> (s, failure 500 ''Server error deleting product'')
             | Inr imgs \<Rightarrow>
                 (case findByIdAndDelete (params_id req) (s\<lparr>images := imgs\<rparr>) of
                    Inl e \<Rightarrow> (s\<lparr>images := imgs\<rparr>, failure 500 ''Server error deleting product'')
                  | Inr s' \<Rightarrow>
                      (s', \<lparr>status = 200, success = True,
                            message = Some ''Product deleted successfully'',
                            payload = NoData\<rparr>))))"

subsection \<open>\<^verbatim>\<open>middleware/errorHandler.js\<close>\<close>

definition toUpperCase :: "char \<Rightarrow> char" where
  "toUpperCase c =
     (let n = (of_char c :: nat) in if 97 \<le> n \<and> n \<le> 122 then char_of (n - 32) else c)"

fun join :: "string \<Rightarrow> string list \<Rightarrow> string" where
  "join sep [] = []"
| "join sep [x] = x"
| "join sep (x # y # ys) = x @ sep @ join sep (y # ys)"

text \<open>
  The middleware that express runs for an error passed on by a route. The cases of
  \<open>error\<close> are the tests it makes, in its order: the name \<^verbatim>\<open>CastError\<close>,
  the code 11000 (with the first key of \<^verbatim>\<open>keyValue\<close>), the name
  \<^verbatim>\<open>ValidationError\<close> (with the messages of \<^verbatim>\<open>errors\<close>), a
  \<^verbatim>\<open>MulterError\<close> (with its code); any other error has no
  \<^verbatim>\<open>statusCode\<close> and keeps its message.
\<close>

definition errorHandler :: "error \<Rightarrow> response" where
  "errorHandler err =
     (let orServerError = (\<lambda>msg. if msg \<noteq> [] then msg else ''Server Error'') in
      case err of
        CastError \<Rightarrow> failure 404 (orServerError ''Resource not found'')
      | DuplicateKey field \<Rightarrow>
          failure 400 (orServerError (map toUpperCase (take 1 field) @ drop 1 field @ '' already exists''))
      | ValidationError msgs \<Rightarrow> failure 400 (orServerError (join '', '' msgs))
      | MulterError code \<Rightarrow>
          (if code = ''LIMIT_FILE_SIZE'' then failure 400 ''File too large. Maximum size is 5MB''
           else failure 400 ''File upload error'')
      | OtherError msg \<Rightarrow> failure 500 (orServerError msg))"

subsection \<open>Sequences of calls\<close>

datatype call =
    Create world request
  | List request
  | GetById request
  | Update world request
  | Delete world request

definition step :: "(string \<Rightarrow> number) \<Rightarrow> state \<Rightarrow> call \<Rightarrow> state" where
  "step pf s c =
     (case c of
        Create w req \<Rightarrow> fst (createProduct pf w req s)
      | List req \<Rightarrow> s
      | GetById req \<Rightarrow> s
      | Update w req \<Rightarrow> fst (updateProduct pf w req s)
      | Delete w req \<Rightarrow> fst (deleteProduct w req s))"

definition run :: "(string \<Rightarrow> number) \<Rightarrow> state \<Rightarrow> call list \<Rightarrow> state" where
  "run pf s cs = foldl (step pf) s cs"

text \<open>The call is a Delete of the document \<open>oid\<close> asked by the user \<open>u\<close>.\<close>

definition deletes :: "objectId \<Rightarrow> objectId \<Rightarrow> call \<Rightarrow> bool" where
  "deletes oid u c =
     (case c of
        Delete w req \<Rightarrow> castObjectId (params_id req) = Some oid \<and> user_id req = u
      | _ \<Rightarrow> False)"

text \<open>
  What the schema's \<^verbatim>\<open>trim\<close> leaves behind: the titles and descriptions of the
  stored documents carry no outer white space. Every write of the controllers goes through
  the cast, so a collection that started empty stays so.
\<close>

definition well_stored :: "state \<Rightarrow> bool" where
  "well_stored s =
     (\<forall>doc \<in> set (products s). trim (title doc) = title doc \<and> trim (description doc) = description doc)"

subsection \<open>A small shop, for the concrete instances\<close>

definition alice :: objectId where
  "alice = ''aaaaaaaaaaaaaaaaaaaaaaaa''"

definition bob :: objectId where
  "bob = ''bbbbbbbbbbbbbbbbbbbbbbbb''"

definition lamp_id :: objectId where
  "lamp_id = ''000000000000000000000001''"

definition lamp :: product where
  "lamp = \<lparr>product_id = lamp_id, title = ''Lamp'', description = ''A desk lamp'',
           imageURL = ''https://res.cloudinary.com/old.jpg'', imagePublicId = ''product-gallery/old'',
           shopId = alice, category = ''Electronics'', price = None, inStock = True,
           createdAt = 1, updatedAt = 1\<rparr>"

definition shelf :: state where
  "shelf = \<lparr>products = [lamp], images = {''product-gallery/old''}\<rparr>"

text \<open>A request of alice for the lamp with an empty body, no file and no query.\<close>

definition blank :: request where
  "blank = \<lparr>params_id = lamp_id, user_id = alice, body_title = None, body_description = None,
            body_category = None, body_price = None, body_inStock = None, req_file = None,
            query_page = None, query_limit = None, query_category = None, query_shopId = None,
            query_search = None\<rparr>"

text \<open>A world in which Cloudinary answers every call.\<close>

definition calm :: world where
  "calm = \<lparr>uploadAnswer = Some (''https://res.cloudinary.com/new.jpg'', ''product-gallery/new''),
           destroyAnswer = True, newId = ''000000000000000000000002'', now = 2\<rparr>"

definition intruder :: request where
  "intruder = blank\<lparr>user_id := bob, body_title := Some ''Mine''\<rparr>"

definition restock :: request where
  "restock = blank\<lparr>body_inStock := Some ''false''\<rparr>"

definition rename :: request where
  "rename = blank\<lparr>body_title := Some ''Reading lamp''\<rparr>"

definition new_book :: request where
  "new_book = blank\<lparr>body_title := Some ''Book'', body_description := Some ''A paperback'',
                   body_category := Some ''Books'', req_file := Some ''bytes''\<rparr>"

definition noFloat :: "string \<Rightarrow> number" where
  "noFloat str = NaN"

text \<open>Worlds in which Cloudinary refuses a removal, or an upload.\<close>

definition stormy :: world where
  "stormy = calm\<lparr>destroyAnswer := False\<rparr>"

definition offline :: world where
  "offline = calm\<lparr>uploadAnswer := None\<rparr>"

definition reshoot :: request where
  "reshoot = blank\<lparr>req_file := Some ''bytes''\<rparr>"

definition minusFive :: "string \<Rightarrow> number" where
  "minusFive str = Finite (- 5)"

definition busy_day :: "call list" where
  "busy_day = [Update calm rename, Create calm new_book, Delete calm intruder, GetById blank]"






section \<open>Properties\<close>

subsection \<open>Lists and strings\<close>

lemma find_map_keep:
  "(\<And>d. f (g d) = f d) \<Longrightarrow> find (\<lambda>d. f d = k) (map g xs) = map_option g (find (\<lambda>d. f d = k) xs)"
  by (induction xs) auto

lemma find_filter_other:
  "k \<noteq> oid \<Longrightarrow> find (\<lambda>d. f d = k) (filter (\<lambda>d. f d \<noteq> oid) xs) = find (\<lambda>d. f d = k) xs"
  by (induction xs) auto

lemma find_filter_same: "find (\<lambda>d. f d = k) (filter (\<lambda>d. f d \<noteq> k) xs) = None"
  by (simp add: find_None_iff)

lemma find_append_fresh:
  "k \<notin> f ` set xs \<Longrightarrow> f x = k \<Longrightarrow> find (\<lambda>d. f d = k) (xs @ [x]) = Some x"
  by (induction xs) auto

lemma trim_idem: "trim (trim str) = trim str"
proof -
  define t where "t = dropWhile isWhiteSpace (rev str)"
  define u where "u = dropWhile isWhiteSpace (rev t)"
  have u: "trim str = u" by (simp add: trim_def t_def u_def)
  show ?thesis
  proof (cases "u = []")
    case True
    then have "trim u = u" by (simp add: trim_def)
    then show ?thesis by (simp only: u)
  next
    case False
    then have tne: "t \<noteq> []" by (auto simp: u_def)
    then have "\<not> isWhiteSpace (hd t)" unfolding t_def by (rule hd_dropWhile)
    moreover have "rev t = takeWhile isWhiteSpace (rev t) @ u" by (simp add: u_def)
    then have "last (rev t) = last u" using False by (metis last_appendR)
    ultimately have "\<not> isWhiteSpace (last u)" using tne by (simp add: last_rev)
    then have "dropWhile isWhiteSpace (rev u) = rev u"
      using False by (simp add: dropWhile_eq_self_iff hd_rev)
    moreover have "dropWhile isWhiteSpace u = u" by (simp add: u_def)
    ultimately have "trim u = u" by (simp add: trim_def)
    then show ?thesis by (simp only: u)
  qed
qed

subsection \<open>What the operations do to the collection\<close>

lemma product_id_applyUpdate: "product_id (applyUpdate w u d) = product_id d"
  by (simp add: applyUpdate_def)

lemma shopId_applyUpdate: "shopId (applyUpdate w u d) = shopId d"
  by (simp add: applyUpdate_def)

lemma find_map_applyUpdate:
  "find (\<lambda>d. product_id d = k) (map (\<lambda>d. if product_id d = oid then applyUpdate w u d else d) xs)
     = map_option (\<lambda>d. if product_id d = oid then applyUpdate w u d else d) (find (\<lambda>d. product_id d = k) xs)"
  by (rule find_map_keep) (simp add: product_id_applyUpdate)

lemma findById_Some:
  assumes "findById ident s = Inr (Some doc)"
  shows "castObjectId ident = Some (product_id doc) \<and> lookup (product_id doc) s = Some doc \<and> doc \<in> set (products s)"
  using assms
  by (auto simp: findById_def lookup_def find_Some_iff split: option.splits)

lemma replaceImage_fields:
  assumes "replaceImage w req doc u0 imgs = (imgs', Inr u)"
  shows "u_title u = u_title u0 \<and> u_description u = u_description u0 \<and> u_category u = u_category u0 \<and>
         u_price u = u_price u0 \<and> u_inStock u = u_inStock u0"
  using assms
  by (auto simp: replaceImage_def split: option.splits sum.splits if_splits prod.splits)

text \<open>What an update asked by the owner does: it fails with 500 and touches at most the images,
  or it stores the update.\<close>

lemma updateProduct_owner:
  assumes "findById (params_id req) s = Inr (Some doc)" and "user_id req = shopId doc"
  shows "(\<exists>imgs. updateProduct pf w req s =
            (s\<lparr>images := imgs\<rparr>, failure 500 ''Server error updating product'')) \<or>
         (\<exists>imgs u. replaceImage w req doc (patch pf req doc) (images s) = (imgs, Inr u) \<and>
            validateUpdate u = [] \<and> u_price u \<noteq> Some NaN \<and>
            updateProduct pf w req s =
              (s\<lparr>images := imgs,
                 products := map (\<lambda>d. if product_id d = product_id doc then applyUpdate w u d else d)
                              (products s)\<rparr>,
               \<lparr>status = 200, success = True, message = Some ''Product updated successfully'',
                payload = OneProduct (applyUpdate w u doc)\<rparr>))"
proof -
  from findById_Some[OF assms(1)]
  have c: "castObjectId (params_id req) = Some (product_id doc)"
    and l: "lookup (product_id doc) s = Some doc" by simp_all
  obtain imgs r where r: "replaceImage w req doc (patch pf req doc) (images s) = (imgs, r)"
    by (cases "replaceImage w req doc (patch pf req doc) (images s)")
  show ?thesis
  proof (cases r)
    case (Inl e)
    then show ?thesis using assms r by (auto simp: updateProduct_def)
  next
    case (Inr u)
    show ?thesis
    proof (cases "u_price u = Some NaN \<or> validateUpdate u \<noteq> []")
      case True
      then have "updateProduct pf w req s = (s\<lparr>images := imgs\<rparr>, failure 500 ''Server error updating product'')"
        using assms r Inr c by (auto simp: updateProduct_def findByIdAndUpdate_def)
      then show ?thesis by blast
    next
      case False
      have "lookup (product_id doc)
              (s\<lparr>images := imgs,
                 products := map (\<lambda>d. if product_id d = product_id doc then applyUpdate w u d else d)
                              (products s)\<rparr>) = Some (applyUpdate w u doc)"
        using l by (simp add: lookup_def find_map_applyUpdate)
      then have "updateProduct pf w req s =
              (s\<lparr>images := imgs,
                 products := map (\<lambda>d. if product_id d = product_id doc then applyUpdate w u d else d)
                              (products s)\<rparr>,
               \<lparr>status = 200, success = True, message = Some ''Product updated successfully'',
                payload = OneProduct (applyUpdate w u doc)\<rparr>)"
        using assms r Inr c False by (simp add: updateProduct_def findByIdAndUpdate_def Let_def)
      then show ?thesis using r Inr False by blast
    qed
  qed
qed

lemma patch_absent:
  "(body_title req = None \<longrightarrow> u_title (patch pf req doc) = title doc) \<and>
   (body_description req = None \<longrightarrow> u_description (patch pf req doc) = description doc) \<and>
   (body_category req = None \<longrightarrow> u_category (patch pf req doc) = category doc) \<and>
   (body_price req = None \<longrightarrow> u_price (patch pf req doc) = price doc) \<and>
   (body_inStock req = None \<longrightarrow> u_inStock (patch pf req doc) = inStock doc)"
  by (simp add: patch_def or_else_def)

lemma applyUpdate_fields:
  "title (applyUpdate w u doc) = trim (u_title u) \<and>
   description (applyUpdate w u doc) = trim (u_description u) \<and>
   category (applyUpdate w u doc) = u_category u \<and>
   price (applyUpdate w u doc) = u_price u \<and>
   inStock (applyUpdate w u doc) = u_inStock u"
  by (simp add: applyUpdate_def castString_def)

lemma patch_empty_title: "patch pf (req\<lparr>body_title := Some []\<rparr>) doc = patch pf (req\<lparr>body_title := None\<rparr>) doc"
  by (simp add: patch_def or_else_def)

lemma patch_empty_description:
  "patch pf (req\<lparr>body_description := Some []\<rparr>) doc = patch pf (req\<lparr>body_description := None\<rparr>) doc"
  by (simp add: patch_def or_else_def)

lemma patch_empty_category:
  "patch pf (req\<lparr>body_category := Some []\<rparr>) doc = patch pf (req\<lparr>body_category := None\<rparr>) doc"
  by (simp add: patch_def or_else_def)

lemma updateProduct_success_owner:
  assumes "status (snd (updateProduct pf w req s)) = 200"
  shows "\<exists>doc. findById (params_id req) s = Inr (Some doc) \<and> user_id req = shopId doc"
  using assms
  by (auto simp: updateProduct_def failure_def split: sum.splits option.splits if_splits)

lemma validateUpdate_nonempty:
  assumes "validateUpdate u = []"
  shows "castString True (Some (u_title u)) \<noteq> [] \<and> castString True (Some (u_description u)) \<noteq> [] \<and>
         u_category u \<noteq> []"
  using assms
  by (auto simp: validateUpdate_def validateTitle_def validateDescription_def validateCategory_def
      split: if_splits)

lemma updateProduct_same:
  assumes "params_id r1 = params_id r2" and "user_id r1 = user_id r2" and "req_file r1 = req_file r2"
      and "\<And>doc. patch pf r1 doc = patch pf r2 doc"
  shows "updateProduct pf w r1 s = updateProduct pf w r2 s"
proof -
  have "replaceImage w r1 doc u imgs = replaceImage w r2 doc u imgs" for doc u imgs
    by (simp add: replaceImage_def assms(3))
  then show ?thesis
    by (simp add: updateProduct_def assms split: sum.splits option.splits)
qed

subsection \<open>What \<open>parseInt\<close> reads\<close>

declare decimal.simps [simp del]






lemma decimal_digits: "c \<in> set (decimal n) \<Longrightarrow> \<exists>d<10. c = digitChar d"
proof (induction n arbitrary: c rule: decimal.induct)
  case (1 n)
  show ?case
  proof (cases "n < 10")
    case True
    with 1(2) have "c = digitChar n" by (simp add: decimal.simps[of n])
    with True show ?thesis by blast
  next
    case False
    with 1(2) have "c \<in> set (decimal (n div 10)) \<or> c = digitChar (n mod 10)"
      by (auto simp: decimal.simps[of n])
    then show ?thesis
    proof
      assume "c \<in> set (decimal (n div 10))"
      with 1(1)[OF False] show ?thesis .
    next
      assume "c = digitChar (n mod 10)"
      moreover have "n mod 10 < 10" by simp
      ultimately show ?thesis by blast
    qed
  qed
qed

lemma decimal_nonempty: "decimal n \<noteq> []"
  by (simp add: decimal.simps[of n])

lemma hd_decimal: "\<exists>d<10. hd (decimal n) = digitChar d"
  using decimal_digits[of "hd (decimal n)" n] decimal_nonempty[of n] by simp











subsection \<open>Listing\<close>









subsection \<open>The state after a call\<close>

lemma find_append_found: "find P xs = Some x \<Longrightarrow> find P (xs @ ys) = Some x"
  by (induction xs) auto

text \<open>The state after a Create: untouched, with one more image, or with one more document too.\<close>

lemma createProduct_state:
  "(\<exists>imgs. fst (createProduct pf w req s) = s\<lparr>images := imgs\<rparr>) \<or>
   (\<exists>imgs doc. title doc = castString True (body_title req) \<and>
        description doc = castString True (body_description req) \<and>
        fst (createProduct pf w req s) = s\<lparr>images := imgs, products := products s @ [doc]\<rparr>)"
proof (cases "req_file req")
  case None
  then have "fst (createProduct pf w req s) = s\<lparr>images := images s\<rparr>"
    by (simp add: createProduct_def)
  then show ?thesis by blast
next
  case (Some f)
  show ?thesis
  proof (cases "uploadToCloudinary w f (images s)")
    case (Inl e)
    then have "fst (createProduct pf w req s) = s\<lparr>images := images s\<rparr>"
      using Some by (simp add: createProduct_def)
    then show ?thesis by blast
  next
    case (Inr r)
    obtain up imgs where r: "r = (up, imgs)" by (cases r)
    define doc where "doc = \<lparr>product_id = newId w,
                           title = castString True (body_title req),
                           description = castString True (body_description req),
                           imageURL = fst up,
                           imagePublicId = snd up,
                           shopId = user_id req,
                           category = castString False (body_category req),
                           price = (case body_price req of
                                      None \<Rightarrow> None
                                    | Some str \<Rightarrow> if str \<noteq> [] then Some (pf str) else None),
                           inStock = (if body_inStock req = Some ''false'' then False else True),
                           createdAt = 0,
                           updatedAt = 0\<rparr>"
    have c: "createProduct pf w req s =
               (case save w doc (s\<lparr>images := imgs\<rparr>) of
                  Inl e \<Rightarrow> (s\<lparr>images := imgs\<rparr>, failure 500 ''Server error creating product'')
                | Inr (stored, s2) \<Rightarrow>
                       (s2, \<lparr>status = 201, success = True,
                             message = Some ''Product created successfully'',
                             payload = OneProduct stored\<rparr>))"
      using Some Inr r by (simp add: createProduct_def doc_def Let_def)
    show ?thesis
    proof (cases "save w doc (s\<lparr>images := imgs\<rparr>)")
      case (Inl e)
      then have "fst (createProduct pf w req s) = s\<lparr>images := imgs\<rparr>" by (simp add: c)
      then show ?thesis by blast
    next
      case (Inr q)
      then have "fst (createProduct pf w req s) =
                   s\<lparr>images := imgs, products := products s @ [doc\<lparr>createdAt := now w, updatedAt := now w\<rparr>]\<rparr>"
        by (auto simp: c save_def Let_def split: if_splits)
      moreover have "title (doc\<lparr>createdAt := now w, updatedAt := now w\<rparr>) = castString True (body_title req)"
        "description (doc\<lparr>createdAt := now w, updatedAt := now w\<rparr>) = castString True (body_description req)"
        by (simp_all add: doc_def)
      ultimately show ?thesis by blast
    qed
  qed
qed

text \<open>The state after an Update: untouched but for the images, or with the update applied to
  the document found.\<close>

lemma updateProduct_state:
  "(\<exists>imgs. fst (updateProduct pf w req s) = s\<lparr>images := imgs\<rparr>) \<or>
   (\<exists>imgs u oid. fst (updateProduct pf w req s) =
        s\<lparr>images := imgs,
          products := map (\<lambda>d. if product_id d = oid then applyUpdate w u d else d) (products s)\<rparr>)"
proof (cases "findById (params_id req) s")
  case (Inl e)
  then have "fst (updateProduct pf w req s) = s\<lparr>images := images s\<rparr>" by (simp add: updateProduct_def)
  then show ?thesis by blast
next
  case (Inr found)
  show ?thesis
  proof (cases found)
    case None
    then have "fst (updateProduct pf w req s) = s\<lparr>images := images s\<rparr>"
      using Inr by (simp add: updateProduct_def)
    then show ?thesis by blast
  next
    case (Some doc)
    show ?thesis
    proof (cases "user_id req = shopId doc")
      case False
      then have "fst (updateProduct pf w req s) = s\<lparr>images := images s\<rparr>"
        using Inr Some by (simp add: updateProduct_def)
      then show ?thesis by blast
    next
      case True
      from Inr Some have f: "findById (params_id req) s = Inr (Some doc)" by simp
      from updateProduct_owner[OF f True, of pf w] show ?thesis
        by (elim disjE exE conjE) (simp, blast)+
    qed
  qed
qed

text \<open>The state after a Delete: untouched, or without the document, which the requester owned.\<close>

lemma deleteProduct_state:
  "fst (deleteProduct w req s) = s \<or>
   (\<exists>imgs doc. findById (params_id req) s = Inr (Some doc) \<and> user_id req = shopId doc \<and>
        fst (deleteProduct w req s) =
          s\<lparr>images := imgs, products := filter (\<lambda>d. product_id d \<noteq> product_id doc) (products s)\<rparr>)"
proof (cases "findById (params_id req) s")
  case (Inl e)
  then show ?thesis by (simp add: deleteProduct_def)
next
  case (Inr found)
  show ?thesis
  proof (cases found)
    case None
    then show ?thesis using Inr by (simp add: deleteProduct_def)
  next
    case (Some doc)
    from Inr Some have f: "findById (params_id req) s = Inr (Some doc)" by simp
    from findById_Some[OF f] have c: "castObjectId (params_id req) = Some (product_id doc)" by simp
    show ?thesis
    proof (cases "user_id req = shopId doc")
      case False
      then show ?thesis using f by (simp add: deleteProduct_def)
    next
      case True
      show ?thesis
      proof (cases "imagePublicId doc \<noteq> [] \<and> \<not> destroyAnswer w")
        case True
        then show ?thesis using f \<open>user_id req = shopId doc\<close>
          by (simp add: deleteProduct_def destroy_def)
      next
        case False
        then have "fst (deleteProduct w req s) =
          s\<lparr>images := (if imagePublicId doc \<noteq> [] then images s - {imagePublicId doc} else images s),
            products := filter (\<lambda>d. product_id d \<noteq> product_id doc) (products s)\<rparr>"
          using f c \<open>user_id req = shopId doc\<close>
          by (auto simp: deleteProduct_def destroy_def findByIdAndDelete_def)
        then show ?thesis using f \<open>user_id req = shopId doc\<close> by blast
      qed
    qed
  qed
qed

lemma step_keeps_owner:
  assumes "lookup oid s = Some doc" and "\<not> deletes oid (shopId doc) c"
  shows "\<exists>doc'. lookup oid (step pf s c) = Some doc' \<and> shopId doc' = shopId doc"
proof (cases c)
  case (Create w req)
  from createProduct_state[of pf w req s] show ?thesis
  proof (elim disjE exE conjE)
    fix imgs assume "fst (createProduct pf w req s) = s\<lparr>images := imgs\<rparr>"
    then show ?thesis using assms(1) Create by (simp add: step_def lookup_def)
  next
    fix imgs d assume "fst (createProduct pf w req s) = s\<lparr>images := imgs, products := products s @ [d]\<rparr>"
    then show ?thesis using assms(1) Create by (simp add: step_def lookup_def find_append_found)
  qed
next
  case (List req)
  then show ?thesis using assms(1) by (simp add: step_def)
next
  case (GetById req)
  then show ?thesis using assms(1) by (simp add: step_def)
next
  case (Update w req)
  from updateProduct_state[of pf w req s] show ?thesis
  proof (elim disjE exE)
    fix imgs assume "fst (updateProduct pf w req s) = s\<lparr>images := imgs\<rparr>"
    then show ?thesis using assms(1) Update by (simp add: step_def lookup_def)
  next
    fix imgs u k
    assume "fst (updateProduct pf w req s) =
        s\<lparr>images := imgs,
          products := map (\<lambda>d. if product_id d = k then applyUpdate w u d else d) (products s)\<rparr>"
    then show ?thesis using assms(1) Update
      by (simp add: step_def lookup_def find_map_applyUpdate shopId_applyUpdate)
  qed
next
  case (Delete w req)
  from deleteProduct_state[of w req s] show ?thesis
  proof (elim disjE exE conjE)
    assume "fst (deleteProduct w req s) = s"
    then show ?thesis using assms(1) Delete by (simp add: step_def)
  next
    fix imgs d
    assume f: "findById (params_id req) s = Inr (Some d)" and o: "user_id req = shopId d"
       and st: "fst (deleteProduct w req s) =
          s\<lparr>images := imgs, products := filter (\<lambda>x. product_id x \<noteq> product_id d) (products s)\<rparr>"
    from findById_Some[OF f]
    have c: "castObjectId (params_id req) = Some (product_id d)" and l: "lookup (product_id d) s = Some d"
      by simp_all
    have "oid \<noteq> product_id d"
    proof
      assume e: "oid = product_id d"
      with l assms(1) have "d = doc" by simp
      with e c o have "deletes oid (shopId doc) c" using Delete by (simp add: deletes_def)
      with assms(2) show False by simp
    qed
    then show ?thesis using assms(1) Delete st
      by (simp add: step_def lookup_def find_filter_other)
  qed
qed

lemma run_keeps_owner:
  assumes "lookup oid s = Some doc"
      and "\<forall>c \<in> set calls. \<not> deletes oid (shopId doc) c"
  shows "\<exists>doc'. lookup oid (run pf s calls) = Some doc' \<and> shopId doc' = shopId doc"
  using assms
proof (induction calls arbitrary: s doc)
  case Nil
  then show ?case by (simp add: run_def)
next
  case (Cons c calls)
  from Cons.prems have n: "\<not> deletes oid (shopId doc) c" by simp
  from step_keeps_owner[OF Cons.prems(1) n, of pf]
  obtain d where d: "lookup oid (step pf s c) = Some d" and o: "shopId d = shopId doc" by blast
  from Cons.prems(2) o have "\<forall>c \<in> set calls. \<not> deletes oid (shopId d) c" by simp
  from Cons.IH[OF d this] o show ?case by (simp add: run_def)
qed

subsection \<open>Stored titles and descriptions are trimmed\<close>

lemma trim_Nil: "trim [] = []"
  by (simp add: trim_def)

lemma castString_trimmed: "trim (castString True v) = castString True v"
  by (simp add: castString_def trim_idem trim_Nil split: option.splits)

lemma well_stored_step:
  assumes "well_stored s"
  shows "well_stored (step pf s c)"
proof (cases c)
  case (Create w req)
  from createProduct_state[of pf w req s] show ?thesis
    using assms Create by (auto simp: step_def well_stored_def castString_trimmed)
next
  case (List req)
  then show ?thesis using assms by (simp add: step_def)
next
  case (GetById req)
  then show ?thesis using assms by (simp add: step_def)
next
  case (Update w req)
  from updateProduct_state[of pf w req s] show ?thesis
    using assms Update by (auto simp: step_def well_stored_def applyUpdate_def castString_trimmed)
next
  case (Delete w req)
  from deleteProduct_state[of w req s] show ?thesis
    using assms Delete by (auto simp: step_def well_stored_def)
qed

lemma well_stored_run: "well_stored s \<Longrightarrow> well_stored (run pf s calls)"
  unfolding run_def by (induction calls arbitrary: s) (simp_all add: well_stored_step)

lemma well_stored_empty: "well_stored \<lparr>products = [], images = imgs\<rparr>"
  by (simp add: well_stored_def)

subsection \<open>The concrete instances\<close>

lemma well_stored_shelf: "well_stored shelf"
  by code_simp

section \<open>The claims\<close>

text \<open>
  C1 (the code does otherwise). The owner sends a new image for the lamp and Cloudinary
  refuses the upload. \<^verbatim>\<open>updateProduct\<close> has destroyed the old image before it
  uploads: the answer is 500 and the product record is as it was, but the image it points to
  is gone from the image store.
\<close>

theorem update_destroys_old_image_first:
  "findById (params_id reshoot) shelf = Inr (Some lamp) \<and> user_id reshoot = shopId lamp \<and>
   req_file reshoot = Some ''bytes'' \<and> uploadAnswer offline = None \<and>
   imagePublicId lamp \<in> images shelf \<and>
   updateProduct noFloat offline reshoot shelf =
     (shelf\<lparr>images := {}\<rparr>, failure 500 ''Server error updating product'') \<and>
   products (fst (updateProduct noFloat offline reshoot shelf)) = products shelf \<and>
   imagePublicId lamp \<notin> images (fst (updateProduct noFloat offline reshoot shelf))"
  by code_simp

text \<open>
  C2 (as the code has it). The owner deletes the lamp and Cloudinary refuses to remove its
  image: the answer is 500 and the state is as it was, with the product record in place.
\<close>

theorem delete_stops_at_image_failure_counterexample:
  "findById (params_id blank) shelf = Inr (Some lamp) \<and> user_id blank = shopId lamp \<and>
   \<not> destroyAnswer stormy \<and>
   deleteProduct stormy blank shelf = (shelf, failure 500 ''Server error deleting product'') \<and>
   lookup lamp_id (fst (deleteProduct stormy blank shelf)) = Some lamp"
  by code_simp

text \<open>
  C2, amended. For a Delete asked by the owner of an existing product: when the removal of
  its image fails, the operation stops with 500 "Server error deleting product" and leaves
  the state as it was, the record included; when the removal succeeds, or the product has no
  deletion handle, the answer is 200 and the record is gone.
\<close>

theorem delete_needs_image_removal:
  assumes "findById (params_id req) s = Inr (Some doc)" and "user_id req = shopId doc"
  shows "(imagePublicId doc \<noteq> [] \<and> \<not> destroyAnswer w \<longrightarrow>
            deleteProduct w req s = (s, failure 500 ''Server error deleting product'')) \<and>
         (imagePublicId doc = [] \<or> destroyAnswer w \<longrightarrow>
            status (snd (deleteProduct w req s)) = 200 \<and>
            lookup (product_id doc) (fst (deleteProduct w req s)) = None)"
proof -
  from findById_Some[OF assms(1)]
  have c: "castObjectId (params_id req) = Some (product_id doc)" by simp
  show ?thesis
    using assms c
    by (auto simp: deleteProduct_def destroy_def findByIdAndDelete_def lookup_def find_filter_same)
qed

theorem delete_needs_image_removal_witness:
  "findById (params_id blank) shelf = Inr (Some lamp) \<and> user_id blank = shopId lamp \<and>
   imagePublicId lamp \<noteq> [] \<and> \<not> destroyAnswer stormy \<and>
   deleteProduct stormy blank shelf = (shelf, failure 500 ''Server error deleting product'') \<and>
   destroyAnswer calm \<and> status (snd (deleteProduct calm blank shelf)) = 200 \<and>
   lookup (product_id lamp) (fst (deleteProduct calm blank shelf)) = None"
proof -
  have h1: "findById (params_id blank) shelf = Inr (Some lamp)" by code_simp
  have h2: "user_id blank = shopId lamp" by code_simp
  have h3: "imagePublicId lamp \<noteq> [] \<and> \<not> destroyAnswer stormy" by code_simp
  have h4: "destroyAnswer calm" by code_simp
  from delete_needs_image_removal[OF h1 h2, of stormy] delete_needs_image_removal[OF h1 h2, of calm]
    h1 h2 h3 h4
  show ?thesis by blast
qed

text \<open>
  C3 (the code does otherwise). \<^verbatim>\<open>createProduct\<close> answers 400 exactly when the
  request has no image. With an image, a missing title, a title of 101 characters, a
  category outside the list and a negative price all end in the controller's own
  \<^verbatim>\<open>catch\<close>, which answers 500; the error handler, which would answer 400 to a
  \<^verbatim>\<open>ValidationError\<close>, is never reached.
\<close>

theorem create_invalid_fields_answer_500:
  "(status (snd (createProduct pf w req s)) = 400) = (req_file req = None) \<and>
   status (snd (createProduct noFloat calm (new_book\<lparr>body_title := None\<rparr>) shelf)) = 500 \<and>
   status (snd (createProduct noFloat calm
                  (new_book\<lparr>body_title := Some (replicate 101 CHR ''a'')\<rparr>) shelf)) = 500 \<and>
   status (snd (createProduct noFloat calm (new_book\<lparr>body_category := Some ''Gadgets''\<rparr>) shelf)) = 500 \<and>
   status (snd (createProduct minusFive calm (new_book\<lparr>body_price := Some ''-5''\<rparr>) shelf)) = 500 \<and>
   errorHandler (ValidationError [''Product title is required'']) =
     failure 400 ''Product title is required''"
proof (intro conjI)
  show "(status (snd (createProduct pf w req s)) = 400) = (req_file req = None)"
    by (auto simp: createProduct_def failure_def Let_def split: option.splits sum.splits prod.splits)
  show "status (snd (createProduct noFloat calm (new_book\<lparr>body_title := None\<rparr>) shelf)) = 500"
    by code_simp
  show "status (snd (createProduct noFloat calm
                  (new_book\<lparr>body_title := Some (replicate 101 CHR ''a'')\<rparr>) shelf)) = 500"
    by code_simp
  show "status (snd (createProduct noFloat calm (new_book\<lparr>body_category := Some ''Gadgets''\<rparr>) shelf)) = 500"
    by code_simp
  show "status (snd (createProduct minusFive calm (new_book\<lparr>body_price := Some ''-5''\<rparr>) shelf)) = 500"
    by code_simp
  show "errorHandler (ValidationError [''Product title is required'']) =
     failure 400 ''Product title is required''"
    by code_simp
qed

text \<open>
  C4. For an existing product and a requester who is not its owner, both Update and Delete
  answer 403 and leave the state as it was: neither the product record nor the image store
  changes.
\<close>

theorem non_owner_rejected:
  assumes "findById (params_id req) s = Inr (Some doc)" and "user_id req \<noteq> shopId doc"
  shows "updateProduct pf w req s =
           (s, failure 403 ''Access denied. You can only update your own products.'') \<and>
         deleteProduct w req s =
           (s, failure 403 ''Access denied. You can only delete your own products.'') \<and>
         status (snd (updateProduct pf w req s)) = 403 \<and>
         status (snd (deleteProduct w req s)) = 403"
  using assms by (auto simp: updateProduct_def deleteProduct_def failure_def)

theorem non_owner_rejected_witness:
  "findById (params_id intruder) shelf = Inr (Some lamp) \<and> user_id intruder \<noteq> shopId lamp \<and>
   fst (updateProduct noFloat calm intruder shelf) = shelf \<and>
   status (snd (updateProduct noFloat calm intruder shelf)) = 403 \<and>
   fst (deleteProduct calm intruder shelf) = shelf \<and>
   status (snd (deleteProduct calm intruder shelf)) = 403"
proof -
  have h1: "findById (params_id intruder) shelf = Inr (Some lamp)" by code_simp
  have h2: "user_id intruder \<noteq> shopId lamp" by code_simp
  from non_owner_rejected[OF h1 h2, where pf = noFloat and w = calm] h1 h2
  show ?thesis by (simp add: failure_def)
qed




text \<open>
  C6. The owner of a product never changes. Over any sequence of calls to the catalog in
  which the owner does not delete the product, the product is still there afterwards with
  the owner it had; and a single Update, whatever its body, its image and its requester,
  leaves the product in place with its owner.
\<close>

theorem owner_never_changes:
  assumes "lookup oid s = Some doc"
      and "\<forall>c \<in> set calls. \<not> deletes oid (shopId doc) c"
  shows "(\<exists>doc'. lookup oid (run pf s calls) = Some doc' \<and> shopId doc' = shopId doc) \<and>
         (\<exists>doc'. lookup oid (fst (updateProduct pf w req s)) = Some doc' \<and> shopId doc' = shopId doc)"
proof
  show "\<exists>doc'. lookup oid (run pf s calls) = Some doc' \<and> shopId doc' = shopId doc"
    using assms by (rule run_keeps_owner)
next
  have "\<not> deletes oid (shopId doc) (Update w req)" by (simp add: deletes_def)
  from step_keeps_owner[OF assms(1) this, of pf]
  show "\<exists>doc'. lookup oid (fst (updateProduct pf w req s)) = Some doc' \<and> shopId doc' = shopId doc"
    by (simp add: step_def)
qed

theorem owner_never_changes_witness:
  "lookup lamp_id shelf = Some lamp \<and>
   (\<exists>doc'. lookup lamp_id (run noFloat shelf busy_day) = Some doc' \<and> shopId doc' = alice) \<and>
   (\<exists>doc'. lookup lamp_id (fst (updateProduct noFloat calm rename shelf)) = Some doc' \<and>
      shopId doc' = alice)"
proof -
  have h1: "lookup lamp_id shelf = Some lamp" by code_simp
  have h2: "\<forall>c \<in> set busy_day. \<not> deletes lamp_id (shopId lamp) c" by code_simp
  have a: "shopId lamp = alice" by code_simp
  from owner_never_changes[OF h1 h2, of noFloat calm rename] a h1
  show ?thesis by simp
qed

text \<open>
  C7. An Update asked by the owner leaves every field that the patch does not name as it
  was: title, description, category, price and in-stock flag of the stored product keep
  their value when the body has no such field, whether the update is stored or refused.
\<close>

theorem absent_fields_retained:
  assumes "findById (params_id req) s = Inr (Some doc)" and "user_id req = shopId doc"
      and "well_stored s"
      and "updateProduct pf w req s = (s', resp)"
  shows "\<exists>doc'. lookup (product_id doc) s' = Some doc' \<and>
           (status resp = 200 \<longrightarrow> payload resp = OneProduct doc') \<and>
           (body_title req = None \<longrightarrow> title doc' = title doc) \<and>
           (body_description req = None \<longrightarrow> description doc' = description doc) \<and>
           (body_category req = None \<longrightarrow> category doc' = category doc) \<and>
           (body_price req = None \<longrightarrow> price doc' = price doc) \<and>
           (body_inStock req = None \<longrightarrow> inStock doc' = inStock doc)"
proof -
  from findById_Some[OF assms(1)]
  have l: "lookup (product_id doc) s = Some doc" and m: "doc \<in> set (products s)" by simp_all
  from m assms(3) have t: "trim (title doc) = title doc" "trim (description doc) = description doc"
    unfolding well_stored_def by blast+
  from updateProduct_owner[OF assms(1,2), of pf w] show ?thesis
  proof (elim disjE exE conjE)
    fix imgs
    assume "updateProduct pf w req s = (s\<lparr>images := imgs\<rparr>, failure 500 ''Server error updating product'')"
    with assms(4) have s': "s' = s\<lparr>images := imgs\<rparr>" and r: "resp = failure 500 ''Server error updating product''"
      by simp_all
    have "lookup (product_id doc) s' = Some doc" using l by (simp add: s' lookup_def)
    moreover have "status resp \<noteq> 200" by (simp add: r failure_def)
    ultimately show ?thesis by (intro exI[of _ doc]) simp
  next
    fix imgs u
    assume r: "replaceImage w req doc (patch pf req doc) (images s) = (imgs, Inr u)"
       and up: "updateProduct pf w req s =
              (s\<lparr>images := imgs,
                 products := map (\<lambda>d. if product_id d = product_id doc then applyUpdate w u d else d)
                              (products s)\<rparr>,
               \<lparr>status = 200, success = True, message = Some ''Product updated successfully'',
                payload = OneProduct (applyUpdate w u doc)\<rparr>)"
    from up assms(4) have s': "s' = s\<lparr>images := imgs,
                 products := map (\<lambda>d. if product_id d = product_id doc then applyUpdate w u d else d)
                              (products s)\<rparr>"
      and p: "resp = \<lparr>status = 200, success = True, message = Some ''Product updated successfully'',
                payload = OneProduct (applyUpdate w u doc)\<rparr>" by simp_all
    have l': "lookup (product_id doc) s' = Some (applyUpdate w u doc)"
      using l by (simp add: s' lookup_def find_map_applyUpdate)
    have p': "payload resp = OneProduct (applyUpdate w u doc)" by (simp add: p)
    note f = replaceImage_fields[OF r] 
    note a = applyUpdate_fields[of w u doc]
    note q = patch_absent[of req pf doc]
    have "(body_title req = None \<longrightarrow> title (applyUpdate w u doc) = title doc)"
      using f a q t by metis
    moreover have "(body_description req = None \<longrightarrow> description (applyUpdate w u doc) = description doc)"
      using f a q t by metis
    moreover have "(body_category req = None \<longrightarrow> category (applyUpdate w u doc) = category doc)"
      using f a q by metis
    moreover have "(body_price req = None \<longrightarrow> price (applyUpdate w u doc) = price doc)"
      using f a q by metis
    moreover have "(body_inStock req = None \<longrightarrow> inStock (applyUpdate w u doc) = inStock doc)"
      using f a q by metis
    ultimately show ?thesis using l' p' by (intro exI[of _ "applyUpdate w u doc"]) simp
  qed
qed

theorem absent_fields_retained_witness:
  "findById (params_id restock) shelf = Inr (Some lamp) \<and> user_id restock = shopId lamp \<and>
   well_stored shelf \<and>
   (\<exists>doc'. lookup (product_id lamp) (fst (updateProduct noFloat calm restock shelf)) = Some doc' \<and>
      payload (snd (updateProduct noFloat calm restock shelf)) = OneProduct doc' \<and>
      title doc' = title lamp \<and> description doc' = description lamp \<and>
      category doc' = category lamp \<and> price doc' = price lamp)"
proof -
  have h1: "findById (params_id restock) shelf = Inr (Some lamp)" by code_simp
  have h2: "user_id restock = shopId lamp" by code_simp
  have h3: "status (snd (updateProduct noFloat calm restock shelf)) = 200" by code_simp
  have h4: "body_title restock = None \<and> body_description restock = None \<and>
            body_category restock = None \<and> body_price restock = None" by code_simp
  from absent_fields_retained[OF h1 h2 well_stored_shelf prod.collapse[symmetric]] h3 h4
  have "\<exists>doc'. lookup (product_id lamp) (fst (updateProduct noFloat calm restock shelf)) = Some doc' \<and>
      payload (snd (updateProduct noFloat calm restock shelf)) = OneProduct doc' \<and>
      title doc' = title lamp \<and> description doc' = description lamp \<and>
      category doc' = category lamp \<and> price doc' = price lamp"
    by blast
  with h1 h2 well_stored_shelf show ?thesis by blast
qed

text \<open>
  C8. After a Delete that answered 200, GetById with the same id answers 404
  "Product not found".
\<close>

theorem deleted_product_not_found:
  assumes "deleteProduct w req s = (s', resp)" and "status resp = 200"
      and "params_id req' = params_id req"
  shows "getProduct req' s' = failure 404 ''Product not found''"
  using assms
  by (auto simp: deleteProduct_def getProduct_def findById_def findByIdAndDelete_def failure_def
        lookup_def find_filter_same destroy_def
      split: option.splits sum.splits if_splits)

theorem deleted_product_not_found_witness:
  "status (snd (deleteProduct calm blank shelf)) = 200 \<and>
   getProduct blank (fst (deleteProduct calm blank shelf)) = failure 404 ''Product not found''"
proof -
  have h: "status (snd (deleteProduct calm blank shelf)) = 200" by code_simp
  from deleted_product_not_found[OF prod.collapse[symmetric] h refl] h
  show ?thesis by simp
qed

text \<open>
  C9. A product that Create stored has its in-stock flag off exactly when the form value
  \<^verbatim>\<open>inStock\<close> was the text "false"; with any other text, or with none, the flag
  is on.
\<close>

theorem created_inStock:
  assumes "createProduct pf w req s = (s', resp)" and "status resp = 201"
  shows "\<exists>doc. payload resp = OneProduct doc \<and> lookup (newId w) s' = Some doc \<and>
           (inStock doc \<longleftrightarrow> body_inStock req \<noteq> Some ''false'')"
  using assms
  by (auto simp: createProduct_def save_def failure_def uploadToCloudinary_def lookup_def Let_def
        find_append_fresh
      split: option.splits sum.splits if_splits prod.splits)

theorem created_inStock_witness:
  "status (snd (createProduct noFloat calm (new_book\<lparr>body_inStock := Some ''False''\<rparr>) shelf)) = 201 \<and>
   (\<exists>doc. payload (snd (createProduct noFloat calm (new_book\<lparr>body_inStock := Some ''False''\<rparr>) shelf))
            = OneProduct doc \<and> inStock doc)"
proof -
  let ?req = "new_book\<lparr>body_inStock := Some ''False''\<rparr>"
  have h: "status (snd (createProduct noFloat calm ?req shelf)) = 201" by code_simp
  have v: "body_inStock ?req \<noteq> Some ''false''" by code_simp
  from created_inStock[OF prod.collapse[symmetric] h] v h
  show ?thesis by blast
qed

text \<open>
  C10. In an Update an empty title, description or category is the same as none: the
  operation does exactly what it does without the field. And the product that a successful
  Update stores has a title, a description and a category that are not empty.
\<close>

theorem empty_string_is_absent:
  "updateProduct pf w (req\<lparr>body_title := Some []\<rparr>) s = updateProduct pf w (req\<lparr>body_title := None\<rparr>) s \<and>
   updateProduct pf w (req\<lparr>body_description := Some []\<rparr>) s =
     updateProduct pf w (req\<lparr>body_description := None\<rparr>) s \<and>
   updateProduct pf w (req\<lparr>body_category := Some []\<rparr>) s =
     updateProduct pf w (req\<lparr>body_category := None\<rparr>) s \<and>
   (status (snd (updateProduct pf w req s)) = 200 \<longrightarrow>
      (\<exists>doc'. payload (snd (updateProduct pf w req s)) = OneProduct doc' \<and>
         lookup (product_id doc') (fst (updateProduct pf w req s)) = Some doc' \<and>
         title doc' \<noteq> [] \<and> description doc' \<noteq> [] \<and> category doc' \<noteq> []))"
proof (intro conjI impI)
  show "updateProduct pf w (req\<lparr>body_title := Some []\<rparr>) s = updateProduct pf w (req\<lparr>body_title := None\<rparr>) s"
    by (rule updateProduct_same) (simp_all add: patch_empty_title)
  show "updateProduct pf w (req\<lparr>body_description := Some []\<rparr>) s =
     updateProduct pf w (req\<lparr>body_description := None\<rparr>) s"
    by (rule updateProduct_same) (simp_all add: patch_empty_description)
  show "updateProduct pf w (req\<lparr>body_category := Some []\<rparr>) s =
     updateProduct pf w (req\<lparr>body_category := None\<rparr>) s"
    by (rule updateProduct_same) (simp_all add: patch_empty_category)
next
  assume ok: "status (snd (updateProduct pf w req s)) = 200"
  then obtain doc where f: "findById (params_id req) s = Inr (Some doc)" and o: "user_id req = shopId doc"
    using updateProduct_success_owner by blast
  from findById_Some[OF f] have l: "lookup (product_id doc) s = Some doc" by simp
  from updateProduct_owner[OF f o, of pf w]
  show "\<exists>doc'. payload (snd (updateProduct pf w req s)) = OneProduct doc' \<and>
         lookup (product_id doc') (fst (updateProduct pf w req s)) = Some doc' \<and>
         title doc' \<noteq> [] \<and> description doc' \<noteq> [] \<and> category doc' \<noteq> []"
  proof (elim disjE exE conjE)
    fix imgs
    assume "updateProduct pf w req s = (s\<lparr>images := imgs\<rparr>, failure 500 ''Server error updating product'')"
    with ok show ?thesis by (simp add: failure_def)
  next
    fix imgs u
    assume v: "validateUpdate u = []"
       and up: "updateProduct pf w req s =
              (s\<lparr>images := imgs,
                 products := map (\<lambda>d. if product_id d = product_id doc then applyUpdate w u d else d)
                              (products s)\<rparr>,
               \<lparr>status = 200, success = True, message = Some ''Product updated successfully'',
                payload = OneProduct (applyUpdate w u doc)\<rparr>)"
    have "lookup (product_id (applyUpdate w u doc)) (fst (updateProduct pf w req s)) = Some (applyUpdate w u doc)"
      using l by (simp add: up lookup_def find_map_applyUpdate product_id_applyUpdate)
    moreover from validateUpdate_nonempty[OF v]
    have "title (applyUpdate w u doc) \<noteq> [] \<and> description (applyUpdate w u doc) \<noteq> [] \<and>
          category (applyUpdate w u doc) \<noteq> []"
      by (simp add: applyUpdate_def)
    ultimately show ?thesis by (simp add: up)
  qed
qed

theorem empty_string_is_absent_witness:
  "status (snd (updateProduct noFloat calm rename shelf)) = 200 \<and>
   (\<exists>doc'. payload (snd (updateProduct noFloat calm rename shelf)) = OneProduct doc' \<and>
      title doc' \<noteq> [] \<and> description doc' \<noteq> [] \<and> category doc' \<noteq> [])"
proof -
  have h: "status (snd (updateProduct noFloat calm rename shelf)) = 200" by code_simp
  from empty_string_is_absent[of noFloat calm rename shelf] h
  show ?thesis by blast
qed

end
